theory Spec2Isabelle
  imports Main "HOL-Library.Sublist"
begin

section \<open>Paths as pathlib sees them (POSIX flavour)\<close>

text \<open>
  The downloader computes with \<^verbatim>\<open>pathlib.Path\<close> values. On a POSIX system a path is
  its root (\<^verbatim>\<open>''\<close> for a relative path, \<^verbatim>\<open>'/'\<close>, or \<^verbatim>\<open>'//'\<close> when the text
  starts with exactly two slashes) and the list of its components; empty components
  and \<^verbatim>\<open>'.'\<close> are dropped when the text is parsed, \<^verbatim>\<open>'..'\<close> is kept.
\<close>

record pure_path =
  root :: string
  parts :: "string list"

text \<open>
  \<^verbatim>\<open>str.split(sep)\<close>: the pieces between the separators. There is always at least
  one piece, so the first branch of the inner case is never taken
  (\<open>split_sep_not_empty\<close> below).
\<close>

fun split_sep :: "char \<Rightarrow> string \<Rightarrow> string list" where
  "split_sep c [] = [[]]"
| "split_sep c (x # xs) =
     (if x = c then [] # split_sep c xs
      else (case split_sep c xs of
              [] \<Rightarrow> [[x]]
            | w # ws \<Rightarrow> (x # w) # ws))"

text \<open>\<^verbatim>\<open>str.startswith("/")\<close>.\<close>

definition startswith_sep :: "string \<Rightarrow> bool" where
  "startswith_sep s = (case s of [] \<Rightarrow> False | c # _ \<Rightarrow> c = CHR ''/'')"

text \<open>
  \<^verbatim>\<open>posixpath.splitroot\<close>: one leading slash, or three and more, make the root
  \<^verbatim>\<open>'/'\<close>; exactly two make it \<^verbatim>\<open>'//'\<close>. The second component is the rest of the text.
\<close>

definition splitroot :: "string \<Rightarrow> string \<times> string" where
  "splitroot p =
     (if \<not> startswith_sep p then ([], p)
      else if \<not> startswith_sep (drop 1 p) \<or> startswith_sep (drop 2 p)
        then (''/'', drop 1 p)
      else (''//'', drop 2 p))"

text \<open>\<^verbatim>\<open>Path(text)\<close>: the root and the components that are neither empty nor a dot.\<close>

definition Path :: "string \<Rightarrow> pure_path" where
  "Path s =
     (let (r, rel) = splitroot s
      in \<lparr>root = r, parts = filter (\<lambda>x. x \<noteq> [] \<and> x \<noteq> ''.'') (split_sep CHR ''/'' rel)\<rparr>)"

text \<open>
  \<^verbatim>\<open>a / b\<close> for two paths: a second operand that has a root replaces the first one;
  a relative one is appended to it.
\<close>

definition joinpath :: "pure_path \<Rightarrow> pure_path \<Rightarrow> pure_path" where
  "joinpath a b =
     (if root b \<noteq> [] then b else \<lparr>root = root a, parts = parts a @ parts b\<rparr>)"

text \<open>\<^verbatim>\<open>a / text\<close>: the text is parsed as a path first.\<close>

definition joinstr :: "pure_path \<Rightarrow> string \<Rightarrow> pure_path" where
  "joinstr a s = joinpath a (Path s)"

text \<open>
  \<^verbatim>\<open>p.is_relative_to(d)\<close>: \<open>p\<close> is \<open>d\<close> or lies below it, read off the components
  alone (no look at the file system, \<^verbatim>\<open>'..'\<close> is a component like any other).
\<close>

definition is_relative_to :: "pure_path \<Rightarrow> pure_path \<Rightarrow> bool" where
  "is_relative_to p d = (root p = root d \<and> prefix (parts d) (parts p))"

section \<open>The data of the downloader interface\<close>

text \<open>
  Modelled from the spec: the source identifiers of a \<^verbatim>\<open>FileData\<close>, a class of
  \<^verbatim>\<open>unstructured_ingest.v2.interfaces.file_data\<close> whose declaration is not among the
  sources. The spec's data model gives them a relative path; the downloader tests it
  for truth before using it, so it may be absent.
\<close>

record SourceIdentifiers =
  relative_path :: "string option"

text \<open>
  Modelled from the spec: the descriptive metadata of a \<^verbatim>\<open>FileData\<close>, declared in
  the same missing module. The spec gives it the dates of modification and creation
  as string-encoded values; the downloader tests each for truth, so each may be absent.
\<close>

record FileDataSourceMetadata =
  date_modified :: "string option"
  date_created :: "string option"

text \<open>
  Modelled from the spec: the class \<^verbatim>\<open>FileData\<close> itself, declared in the same missing
  module: it identifies one remote object by its source identifiers, which the
  downloader tests for presence, and carries the metadata.
\<close>

record FileData =
  source_identifiers :: "SourceIdentifiers option"
  metadata :: FileDataSourceMetadata

text \<open>
  \<^verbatim>\<open>DownloaderConfig\<close> and \<^verbatim>\<open>DownloadResponse\<close>, as the source declares them. The
  field of the configuration keeps its name \<^verbatim>\<open>download_dir\<close>, so the property of
  the same name on the downloader is \<open>Downloader_download_dir\<close> below.
\<close>

record DownloaderConfig =
  download_dir :: "pure_path option"

record DownloadResponse =
  file_data :: FileData
  path :: pure_path

text \<open>
  A \<^verbatim>\<open>Downloader\<close> object: the two attributes the base class declares. The
  configuration object is held by reference and written by the \<^verbatim>\<open>download_dir\<close>
  property, so every method that may evaluate the property returns the object too.
\<close>

record Downloader =
  connector_type :: string
  download_config :: DownloaderConfig

text \<open>
  What the property asks of the operating system: the user's home directory
  (\<^verbatim>\<open>Path.home()\<close>) and \<^verbatim>\<open>Path.resolve\<close>, which makes a path absolute and follows
  symbolic links.
\<close>

record os_env =
  home :: pure_path
  resolve :: "pure_path \<Rightarrow> pure_path"

section \<open>\<^verbatim>\<open>Downloader.download_dir\<close> and \<^verbatim>\<open>Downloader.get_download_path\<close>\<close>

text \<open>
  The property: a directory set in the configuration is returned as it is; otherwise
  the default is computed, stored in the configuration and returned.
\<close>

definition Downloader_download_dir :: "os_env \<Rightarrow> Downloader \<Rightarrow> pure_path \<times> Downloader" where
  "Downloader_download_dir env self =
     (case download_dir (download_config self) of
        None \<Rightarrow>
          (let d = resolve env
                 (joinstr (joinstr (joinstr (joinstr (joinstr (home env)
                    ''.cache'') ''unstructured'') ''ingest'') ''download'')
                    (connector_type self))
           in (d, self\<lparr>download_config := (download_config self)\<lparr>download_dir := Some d\<rparr>\<rparr>))
      | Some d \<Rightarrow> (d, self))"

text \<open>
  \<^verbatim>\<open>get_download_path\<close>: \<^verbatim>\<open>None\<close> without source identifiers or with an absent or
  empty relative path (both are falsy); otherwise one leading separator is dropped and
  the rest is joined to the download directory.
\<close>

definition get_download_path ::
  "os_env \<Rightarrow> Downloader \<Rightarrow> FileData \<Rightarrow> pure_path option \<times> Downloader" where
  "get_download_path env self fd =
     (case source_identifiers fd of
        None \<Rightarrow> (None, self)
      | Some si \<Rightarrow>
          (case relative_path si of
             None \<Rightarrow> (None, self)
           | Some rel_path \<Rightarrow>
               if rel_path = [] then (None, self)
               else
                 (let rel_path' = (if startswith_sep rel_path then drop 1 rel_path else rel_path);
                      (d, self') = Downloader_download_dir env self
                  in (Some (joinpath d (Path rel_path')), self'))))"

section \<open>\<^verbatim>\<open>Downloader.generate_download_response\<close>\<close>

datatype exn =
    ValueError string
  | OverflowError
  | FileNotFoundError
  | OSError string

text \<open>
  \<^verbatim>\<open>float(text)\<close> is a parameter \<open>py_float\<close> of the model: the number the text
  denotes, or \<open>None\<close> where Python raises \<^verbatim>\<open>ValueError\<close>. The type \<open>'f\<close> of the
  numbers is left open. \<^verbatim>\<open>is_float\<close> catches exactly that exception.
\<close>

definition is_float :: "(string \<Rightarrow> 'f option) \<Rightarrow> string \<Rightarrow> bool" where
  "is_float py_float v = (case py_float v of Some _ \<Rightarrow> True | None \<Rightarrow> False)"

text \<open>
  The part of the file system the function touches: for every existing file its access
  and modification time. \<^verbatim>\<open>os.utime\<close> raises when a time cannot be converted for
  the platform (the parameter \<open>time_error\<close>: \<^verbatim>\<open>ValueError\<close> for not-a-number,
  \<^verbatim>\<open>OverflowError\<close> out of range) and when the file does not exist. Otherwise the
  file gets the pair (access time, modification time) as the file system keeps it:
  the parameter \<open>stored\<close> is what the file system records for a requested time,
  which it truncates to its resolution and clamps to its range.
\<close>

type_synonym 'f file_times = "pure_path \<Rightarrow> ('f \<times> 'f) option"

definition os_utime ::
  "('f \<times> 'f \<Rightarrow> exn option) \<Rightarrow> ('f \<Rightarrow> 'f) \<Rightarrow> 'f file_times \<Rightarrow> pure_path \<Rightarrow> 'f \<times> 'f \<Rightarrow>
   exn + 'f file_times" where
  "os_utime time_error stored fs p ts =
     (case time_error ts of
        Some e \<Rightarrow> Inl e
      | None \<Rightarrow>
          (case fs p of
             None \<Rightarrow> Inl FileNotFoundError
           | Some _ \<Rightarrow> Inr (fs(p \<mapsto> (stored (fst ts), stored (snd ts))))))"

text \<open>
  Numbers for concrete runs: a whole number of seconds, or not-a-number. The
  definitions and the general theorems are for any type of numbers.
\<close>

datatype float_value = Seconds int | NaN

text \<open>
  The method does not read \<^verbatim>\<open>self\<close> (\<^verbatim>\<open>is_float\<close> is static). A metadata value
  counts in the test when it is present and not the empty text (the truth value of an
  optional string) and passes \<^verbatim>\<open>is_float\<close>. Inside the guarded branch both texts
  have passed \<^verbatim>\<open>is_float\<close>, so the two conversions cannot raise; the model writes
  that case out all the same.
\<close>

definition generate_download_response ::
  "(string \<Rightarrow> 'f option) \<Rightarrow> ('f \<times> 'f \<Rightarrow> exn option) \<Rightarrow> ('f \<Rightarrow> 'f) \<Rightarrow> 'f file_times \<Rightarrow>
   FileData \<Rightarrow> pure_path \<Rightarrow> exn + ('f file_times \<times> DownloadResponse)" where
  "generate_download_response py_float time_error stored fs fd download_path =
     (case (date_modified (metadata fd), date_created (metadata fd)) of
        (Some dm, Some dc) \<Rightarrow>
          if dm \<noteq> [] \<and> is_float py_float dm \<and> dc \<noteq> [] \<and> is_float py_float dc
          then
            (case (py_float dm, py_float dc) of
               (Some date_modified', Some date_created') \<Rightarrow>
                 (case os_utime time_error stored fs download_path
                         (date_created', date_modified') of
                    Inl e \<Rightarrow> Inl e
                  | Inr fs' \<Rightarrow> Inr (fs', \<lparr>file_data = fd, path = download_path\<rparr>))
             | _ \<Rightarrow> Inl (ValueError ''could not convert string to float''))
          else Inr (fs, \<lparr>file_data = fd, path = download_path\<rparr>)
      | _ \<Rightarrow> Inr (fs, \<lparr>file_data = fd, path = download_path\<rparr>))"

section \<open>\<^verbatim>\<open>Downloader.run_async\<close>\<close>

text \<open>
  \<^verbatim>\<open>run\<close> is abstract: the model takes the subclass's implementation as a
  parameter, with any result type (a value, an error, a state transformer). Calling
  an \<^verbatim>\<open>async def\<close> runs nothing and returns a coroutine; awaiting the coroutine runs
  its body, which here has no suspension point of its own.
\<close>

datatype 'r coroutine = Coroutine "unit \<Rightarrow> 'r"

definition await :: "'r coroutine \<Rightarrow> 'r" where
  "await c = (case c of Coroutine body \<Rightarrow> body ())"

definition run_async ::
  "('self \<Rightarrow> FileData \<Rightarrow> 'kwargs \<Rightarrow> 'r) \<Rightarrow> 'self \<Rightarrow> FileData \<Rightarrow> 'kwargs \<Rightarrow> 'r coroutine" where
  "run_async run self fd kwargs = Coroutine (\<lambda>_. run self fd kwargs)"

section \<open>The GCS access configuration\<close>

text \<open>
  The token is a string, a dictionary or absent. \<^verbatim>\<open>json_to_dict\<close> (of
  \<^verbatim>\<open>unstructured_ingest.utils.string_and_date_utils\<close>) is not among the sources: it is
  a parameter of the model, and of what it returns only the test
  \<^verbatim>\<open>isinstance(_, dict)\<close> and the dictionary itself are used. The type \<open>'d\<close> of
  dictionaries is left open. \<^verbatim>\<open>Path(_).is_file()\<close> asks the file system and is a
  parameter too: it answers, or it raises the \<^verbatim>\<open>OSError\<close> it does not absorb (a name
  that is too long, for one).
\<close>

datatype 'd json_value = JsonDict 'd | JsonOther

datatype 'd token_value = TokenStr string | TokenDict 'd

record 'd GcsAccessConfig =
  service_account_key :: "string option"
  token :: "'d token_value option"

definition ALLOWED_AUTH_VALUES :: "string list" where
  "ALLOWED_AUTH_VALUES = [''google_default'', ''cache'', ''anon'', ''browser'', ''cloud'']"

definition model_post_init ::
  "(string \<Rightarrow> 'd json_value) \<Rightarrow> (pure_path \<Rightarrow> exn + bool) \<Rightarrow> 'd GcsAccessConfig \<Rightarrow>
   exn + 'd GcsAccessConfig" where
  "model_post_init json_to_dict is_file self =
     (case service_account_key self of
        None \<Rightarrow> Inr self
      | Some key \<Rightarrow>
          if key = [] then Inr self
          else if key \<in> set ALLOWED_AUTH_VALUES then Inr (self\<lparr>token := Some (TokenStr key)\<rparr>)
          else
            (case json_to_dict key of
               JsonDict d \<Rightarrow> Inr (self\<lparr>token := Some (TokenDict d)\<rparr>)
             | JsonOther \<Rightarrow>
                 (case is_file (Path key) of
                    Inl e \<Rightarrow> Inl e
                  | Inr True \<Rightarrow> Inr (self\<lparr>token := Some (TokenStr key)\<rparr>)
                  | Inr False \<Rightarrow> Inl (ValueError ''Invalid auth token value''))))"

text \<open>
  Construction: the token field is not an argument and starts as \<^verbatim>\<open>None\<close>; the
  hook runs at the end of construction, and its exception is the constructor's.
\<close>

definition GcsAccessConfig_init ::
  "(string \<Rightarrow> 'd json_value) \<Rightarrow> (pure_path \<Rightarrow> exn + bool) \<Rightarrow> string option \<Rightarrow>
   exn + 'd GcsAccessConfig" where
  "GcsAccessConfig_init json_to_dict is_file key =
     model_post_init json_to_dict is_file \<lparr>service_account_key = key, token = None\<rparr>"

section \<open>The registry entries of the GCS connector\<close>

definition CONNECTOR_TYPE :: string where
  "CONNECTOR_TYPE = ''gcs''"

text \<open>The classes the two entries name, and the base classes they extend.\<close>

datatype gcs_class =
    GcsIndexer
  | GcsIndexerConfig
  | GcsDownloader
  | GcsDownloaderConfig
  | GcsUploader
  | GcsUploaderConfig
  | GcsConnectionConfig

datatype fsspec_class =
    FsspecIndexer
  | FsspecIndexerConfig
  | FsspecDownloader
  | FsspecDownloaderConfig
  | FsspecUploader
  | FsspecUploaderConfig
  | FsspecConnectionConfig

text \<open>
  What a class body declares: its base class, the type its \<^verbatim>\<open>connection_config\<close>
  attribute is annotated with, and the value it gives \<^verbatim>\<open>connector_type\<close>. The three
  configuration classes of the indexer, downloader and uploader have the body
  \<^verbatim>\<open>pass\<close>.
\<close>

record class_body =
  base :: fsspec_class
  connection_config_type :: "gcs_class option"
  connector_type_default :: "string option"

fun body_of :: "gcs_class \<Rightarrow> class_body" where
  "body_of GcsIndexer =
     \<lparr>base = FsspecIndexer, connection_config_type = Some GcsConnectionConfig,
      connector_type_default = Some CONNECTOR_TYPE\<rparr>"
| "body_of GcsIndexerConfig =
     \<lparr>base = FsspecIndexerConfig, connection_config_type = None,
      connector_type_default = None\<rparr>"
| "body_of GcsDownloader =
     \<lparr>base = FsspecDownloader, connection_config_type = Some GcsConnectionConfig,
      connector_type_default = Some CONNECTOR_TYPE\<rparr>"
| "body_of GcsDownloaderConfig =
     \<lparr>base = FsspecDownloaderConfig, connection_config_type = None,
      connector_type_default = None\<rparr>"
| "body_of GcsUploader =
     \<lparr>base = FsspecUploader, connection_config_type = Some GcsConnectionConfig,
      connector_type_default = Some CONNECTOR_TYPE\<rparr>"
| "body_of GcsUploaderConfig =
     \<lparr>base = FsspecUploaderConfig, connection_config_type = None,
      connector_type_default = None\<rparr>"
| "body_of GcsConnectionConfig =
     \<lparr>base = FsspecConnectionConfig, connection_config_type = None,
      connector_type_default = Some CONNECTOR_TYPE\<rparr>"

text \<open>
  Attribute lookup: the class's own declaration, else what the base class provides.
  The Fsspec base classes are not among the sources, so what they provide for
  \<^verbatim>\<open>connector_type\<close> is the parameter \<open>inherited\<close>.
\<close>

definition connector_type_of :: "(fsspec_class \<Rightarrow> string option) \<Rightarrow> gcs_class \<Rightarrow> string option" where
  "connector_type_of inherited c =
     (case connector_type_default (body_of c) of
        Some v \<Rightarrow> Some v
      | None \<Rightarrow> inherited (base (body_of c)))"

text \<open>
  An entry is built with keyword arguments; the declarations of
  \<^verbatim>\<open>SourceRegistryEntry\<close> and \<^verbatim>\<open>DestinationRegistryEntry\<close> are not among the sources,
  so an entry is the list of the arguments it was given.
\<close>

type_synonym registry_entry = "(string \<times> gcs_class) list"

definition gcs_source_entry :: registry_entry where
  "gcs_source_entry =
     [(''indexer'', GcsIndexer),
      (''indexer_config'', GcsIndexerConfig),
      (''downloader'', GcsDownloader),
      (''downloader_config'', GcsDownloaderConfig),
      (''connection_config'', GcsConnectionConfig)]"

definition gcs_destination_entry :: registry_entry where
  "gcs_destination_entry =
     [(''uploader'', GcsUploader),
      (''uploader_config'', GcsUploaderConfig),
      (''connection_config'', GcsConnectionConfig)]"

text \<open>The classes an entry holds.\<close>

definition entry_classes :: "registry_entry \<Rightarrow> gcs_class list" where
  "entry_classes e = map snd e"

section \<open>Facts about paths\<close>

lemma split_sep_not_empty: "split_sep c s \<noteq> []"
  by (induction s) (auto split: list.splits)

lemma Path_examples:
  "Path [] = \<lparr>root = [], parts = []\<rparr>"
  "Path ''/'' = \<lparr>root = ''/'', parts = []\<rparr>"
  "Path ''a/./b//c/'' = \<lparr>root = [], parts = [''a'', ''b'', ''c'']\<rparr>"
  "Path ''/usr/../lib'' = \<lparr>root = ''/'', parts = [''usr'', ''..'', ''lib'']\<rparr>"
  "Path ''//host/share'' = \<lparr>root = ''//'', parts = [''host'', ''share'']\<rparr>"
  "Path ''///etc'' = \<lparr>root = ''/'', parts = [''etc'']\<rparr>"
  by (simp_all add: Path_def splitroot_def startswith_sep_def)

lemma joinpath_examples:
  "joinpath (Path ''/data'') (Path ''a/b'') = Path ''/data/a/b''"
  "joinpath (Path ''/data'') (Path ''/etc'') = Path ''/etc''"
  "joinpath (Path ''/data'') (Path []) = Path ''/data''"
  by (simp_all add: joinpath_def Path_def splitroot_def startswith_sep_def)

lemma Path_relative_root: "\<not> startswith_sep s \<Longrightarrow> root (Path s) = []"
  by (simp add: Path_def splitroot_def)

lemma joinpath_relative:
  "root b = [] \<Longrightarrow> joinpath a b = \<lparr>root = root a, parts = parts a @ parts b\<rparr>"
  by (simp add: joinpath_def)

lemma startswith_sep_nonempty: "startswith_sep s \<Longrightarrow> s \<noteq> []"
  by (auto simp: startswith_sep_def)

lemma Path_names:
  "Path ''.cache'' = \<lparr>root = [], parts = [''.cache'']\<rparr>"
  "Path ''unstructured'' = \<lparr>root = [], parts = [''unstructured'']\<rparr>"
  "Path ''ingest'' = \<lparr>root = [], parts = [''ingest'']\<rparr>"
  "Path ''download'' = \<lparr>root = [], parts = [''download'']\<rparr>"
  by (simp_all add: Path_def splitroot_def startswith_sep_def)

lemma download_dir_default:
  assumes "download_dir (download_config self) = None"
    and "\<not> startswith_sep (connector_type self)"
  shows "fst (Downloader_download_dir env self) =
           resolve env \<lparr>root = root (home env),
             parts = parts (home env) @ [''.cache'', ''unstructured'', ''ingest'', ''download'']
                     @ parts (Path (connector_type self))\<rparr>"
  using assms
  by (simp add: Downloader_download_dir_def joinstr_def joinpath_relative Path_relative_root
      Path_names Let_def)

lemma get_download_path_some:
  assumes "source_identifiers fd = Some si" and "relative_path si = Some rel" and "rel \<noteq> []"
  shows "fst (get_download_path env self fd) =
           Some (joinpath (fst (Downloader_download_dir env self))
                   (Path (if startswith_sep rel then drop 1 rel else rel)))"
  using assms by (simp add: get_download_path_def split: prod.splits)

section \<open>The download path\<close>

text \<open>
  Claim C1, as the code has it. For a relative path that begins with a separator,
  \<^verbatim>\<open>get_download_path\<close> drops exactly one leading character and joins the rest to the
  download directory. When the rest does not begin with a separator again, the result
  has the root of the download directory and its components followed by those of the
  rest, so it is below the download directory (as \<^verbatim>\<open>is_relative_to\<close> reads it, from
  the components). Nothing is promised for a relative path that begins with two
  separators.
\<close>

theorem get_download_path_strips_one_separator:
  assumes "source_identifiers fd = Some si"
    and "relative_path si = Some rel"
    and "startswith_sep rel"
  shows "(let d = fst (Downloader_download_dir env self);
              p = joinpath d (Path (drop 1 rel))
          in fst (get_download_path env self fd) = Some p \<and>
             (\<not> startswith_sep (drop 1 rel) \<longrightarrow>
                root p = root d \<and>
                parts p = parts d @ parts (Path (drop 1 rel)) \<and>
                is_relative_to p d))"
proof -
  from assms(3) have "rel \<noteq> []"
    by (rule startswith_sep_nonempty)
  with assms have "fst (get_download_path env self fd) =
      Some (joinpath (fst (Downloader_download_dir env self)) (Path (drop 1 rel)))"
    by (simp add: get_download_path_some)
  then show ?thesis
    by (simp add: Let_def joinpath_relative Path_relative_root is_relative_to_def)
qed

theorem get_download_path_strips_one_separator_witness:
  "startswith_sep ''/reports/2024/q1.pdf''
   \<and> fst (get_download_path \<lparr>home = Path ''/home/u'', resolve = id\<rparr>
        \<lparr>connector_type = ''gcs'',
         download_config = \<lparr>download_dir = Some (Path ''/data/downloads'')\<rparr>\<rparr>
        \<lparr>source_identifiers = Some \<lparr>relative_path = Some ''/reports/2024/q1.pdf''\<rparr>,
         metadata = \<lparr>date_modified = None, date_created = None\<rparr>\<rparr>)
     = Some \<lparr>root = ''/'', parts = [''data'', ''downloads'', ''reports'', ''2024'', ''q1.pdf'']\<rparr>
   \<and> is_relative_to
        \<lparr>root = ''/'', parts = [''data'', ''downloads'', ''reports'', ''2024'', ''q1.pdf'']\<rparr>
        (Path ''/data/downloads'')"
proof -
  have s: "startswith_sep ''/reports/2024/q1.pdf''"
    by (simp add: startswith_sep_def)
  have p: "Path ''/data/downloads'' = \<lparr>root = ''/'', parts = [''data'', ''downloads'']\<rparr>"
    "Path ''reports/2024/q1.pdf'' = \<lparr>root = [], parts = [''reports'', ''2024'', ''q1.pdf'']\<rparr>"
    by (simp_all add: Path_def splitroot_def startswith_sep_def)
  show ?thesis
    using s get_download_path_strips_one_separator
      [of "\<lparr>source_identifiers = Some \<lparr>relative_path = Some ''/reports/2024/q1.pdf''\<rparr>,
            metadata = \<lparr>date_modified = None, date_created = None\<rparr>\<rparr>"
          "\<lparr>relative_path = Some ''/reports/2024/q1.pdf''\<rparr>"
          "''/reports/2024/q1.pdf''"
          "\<lparr>home = Path ''/home/u'', resolve = id\<rparr>"
          "\<lparr>connector_type = ''gcs'',
            download_config = \<lparr>download_dir = Some (Path ''/data/downloads'')\<rparr>\<rparr>"]
    by (simp add: p Downloader_download_dir_def Let_def joinpath_def startswith_sep_def
        is_relative_to_def)
qed

text \<open>
  The first claim as the spec words it fails: a relative path that begins with two
  separators is still absolute after one is dropped, and joining an absolute path
  replaces the download directory.
\<close>

theorem get_download_path_double_separator_escapes:
  "fst (get_download_path \<lparr>home = Path ''/home/u'', resolve = id\<rparr>
          \<lparr>connector_type = ''gcs'',
           download_config = \<lparr>download_dir = Some (Path ''/data/downloads'')\<rparr>\<rparr>
          \<lparr>source_identifiers = Some \<lparr>relative_path = Some ''//etc/passwd''\<rparr>,
           metadata = \<lparr>date_modified = None, date_created = None\<rparr>\<rparr>)
     = Some \<lparr>root = ''/'', parts = [''etc'', ''passwd'']\<rparr>
   \<and> fst (Downloader_download_dir \<lparr>home = Path ''/home/u'', resolve = id\<rparr>
          \<lparr>connector_type = ''gcs'',
           download_config = \<lparr>download_dir = Some (Path ''/data/downloads'')\<rparr>\<rparr>)
     = \<lparr>root = ''/'', parts = [''data'', ''downloads'']\<rparr>
   \<and> \<not> is_relative_to \<lparr>root = ''/'', parts = [''etc'', ''passwd'']\<rparr>
         \<lparr>root = ''/'', parts = [''data'', ''downloads'']\<rparr>"
  by (simp add: get_download_path_def Downloader_download_dir_def startswith_sep_def
      joinpath_def Path_def splitroot_def is_relative_to_def)

text \<open>
  Claim C4. \<^verbatim>\<open>get_download_path\<close> returns \<^verbatim>\<open>None\<close> exactly when the file data has no
  source identifiers, or its source identifiers have an absent or empty relative path;
  in every other case it returns a path.
\<close>

theorem get_download_path_none_iff:
  "(fst (get_download_path env self fd) = None) =
     (source_identifiers fd = None \<or>
      (\<exists>si. source_identifiers fd = Some si \<and>
            (relative_path si = None \<or> relative_path si = Some [])))"
  by (auto simp: get_download_path_def split: option.splits prod.splits)

section \<open>The download directory\<close>

text \<open>
  Claim C5. Evaluating \<^verbatim>\<open>download_dir\<close> a second time returns the path of the first
  evaluation and leaves the object as the first evaluation left it, whatever the home
  directory and the file system have become in between; a call of
  \<^verbatim>\<open>get_download_path\<close> on the object does not change it either, so the directory
  stays what it was first resolved to.
\<close>

theorem download_dir_idempotent:
  "(let (d, self') = Downloader_download_dir env1 self
    in Downloader_download_dir env2 self' = (d, self') \<and>
       download_dir (download_config self') = Some d \<and>
       snd (get_download_path env3 self' fd) = self')"
  by (auto simp: Downloader_download_dir_def get_download_path_def Let_def
      split: option.splits)


text \<open>
  Claim C6, as the code has it. With no directory configured and a connector type
  that does not begin with a separator, the download directory is the resolved form
  of the home directory followed by \<^verbatim>\<open>.cache/unstructured/ingest/download\<close> and the
  connector type. A relative path, less one leading separator, is joined below that
  directory whenever what remains of it does not begin with a separator.
\<close>

theorem default_download_dir_layout:
  assumes "download_dir (download_config self) = None"
    and "\<not> startswith_sep (connector_type self)"
    and "source_identifiers fd = Some si"
    and "relative_path si = Some rel"
    and "rel \<noteq> []"
  shows "(let d = resolve env \<lparr>root = root (home env),
                    parts = parts (home env)
                      @ [''.cache'', ''unstructured'', ''ingest'', ''download'']
                      @ parts (Path (connector_type self))\<rparr>;
              rel' = (if startswith_sep rel then drop 1 rel else rel)
          in fst (Downloader_download_dir env self) = d \<and>
             (\<not> startswith_sep rel' \<longrightarrow>
                fst (get_download_path env self fd) =
                  Some \<lparr>root = root d, parts = parts d @ parts (Path rel')\<rparr> \<and>
                is_relative_to \<lparr>root = root d, parts = parts d @ parts (Path rel')\<rparr> d))"
proof -
  have "fst (get_download_path env self fd) =
      Some (joinpath (fst (Downloader_download_dir env self))
              (Path (if startswith_sep rel then drop 1 rel else rel)))"
    using assms(3-5) by (rule get_download_path_some)
  with download_dir_default [OF assms(1,2), of env] show ?thesis
    by (simp add: Let_def joinpath_relative Path_relative_root is_relative_to_def)
qed

theorem default_download_dir_layout_witness:
  "\<not> startswith_sep ''gcs''
   \<and> fst (Downloader_download_dir \<lparr>home = Path ''/home/u'', resolve = id\<rparr>
        \<lparr>connector_type = ''gcs'', download_config = \<lparr>download_dir = None\<rparr>\<rparr>)
     = \<lparr>root = ''/'', parts = [''home'', ''u'', ''.cache'', ''unstructured'', ''ingest'',
          ''download'', ''gcs'']\<rparr>
   \<and> fst (get_download_path \<lparr>home = Path ''/home/u'', resolve = id\<rparr>
        \<lparr>connector_type = ''gcs'', download_config = \<lparr>download_dir = None\<rparr>\<rparr>
        \<lparr>source_identifiers = Some \<lparr>relative_path = Some ''bucket/a.txt''\<rparr>,
         metadata = \<lparr>date_modified = None, date_created = None\<rparr>\<rparr>)
     = Some \<lparr>root = ''/'', parts = [''home'', ''u'', ''.cache'', ''unstructured'', ''ingest'',
          ''download'', ''gcs'', ''bucket'', ''a.txt'']\<rparr>"
proof -
  have c: "\<not> startswith_sep ''gcs''" "\<not> startswith_sep ''bucket/a.txt''"
    by (simp_all add: startswith_sep_def)
  have p: "Path ''/home/u'' = \<lparr>root = ''/'', parts = [''home'', ''u'']\<rparr>"
    "Path ''gcs'' = \<lparr>root = [], parts = [''gcs'']\<rparr>"
    "Path ''bucket/a.txt'' = \<lparr>root = [], parts = [''bucket'', ''a.txt'']\<rparr>"
    by (simp_all add: Path_def splitroot_def startswith_sep_def)
  show ?thesis
    using c default_download_dir_layout
      [of "\<lparr>connector_type = ''gcs'', download_config = \<lparr>download_dir = None\<rparr>\<rparr>"
          "\<lparr>source_identifiers = Some \<lparr>relative_path = Some ''bucket/a.txt''\<rparr>,
            metadata = \<lparr>date_modified = None, date_created = None\<rparr>\<rparr>"
          "\<lparr>relative_path = Some ''bucket/a.txt''\<rparr>"
          "''bucket/a.txt''"
          "\<lparr>home = Path ''/home/u'', resolve = id\<rparr>"]
    by (simp add: p Let_def)
qed

text \<open>
  The sixth claim as the spec words it fails: under the default directory too, a
  relative path that begins with two separators lands outside the directory.
\<close>

theorem default_download_dir_escape:
  "fst (Downloader_download_dir \<lparr>home = Path ''/home/u'', resolve = id\<rparr>
          \<lparr>connector_type = ''gcs'', download_config = \<lparr>download_dir = None\<rparr>\<rparr>)
     = \<lparr>root = ''/'', parts = [''home'', ''u'', ''.cache'', ''unstructured'', ''ingest'',
          ''download'', ''gcs'']\<rparr>
   \<and> fst (get_download_path \<lparr>home = Path ''/home/u'', resolve = id\<rparr>
          \<lparr>connector_type = ''gcs'', download_config = \<lparr>download_dir = None\<rparr>\<rparr>
          \<lparr>source_identifiers = Some \<lparr>relative_path = Some ''//tmp/report.pdf''\<rparr>,
           metadata = \<lparr>date_modified = None, date_created = None\<rparr>\<rparr>)
     = Some \<lparr>root = ''/'', parts = [''tmp'', ''report.pdf'']\<rparr>
   \<and> \<not> is_relative_to \<lparr>root = ''/'', parts = [''tmp'', ''report.pdf'']\<rparr>
         \<lparr>root = ''/'', parts = [''home'', ''u'', ''.cache'', ''unstructured'', ''ingest'',
            ''download'', ''gcs'']\<rparr>"
  by (simp add: get_download_path_def Downloader_download_dir_def startswith_sep_def
      joinpath_def joinstr_def Path_def splitroot_def is_relative_to_def Let_def)

section \<open>The download response\<close>

lemma generate_download_response_returns:
  "generate_download_response py_float time_error stored fs fd p = Inr (fs', r) \<Longrightarrow>
     r = \<lparr>file_data = fd, path = p\<rparr>"
  by (auto simp: generate_download_response_def split: option.splits sum.splits if_splits)

lemma generate_download_response_raises:
  "generate_download_response py_float time_error stored fs fd p = Inl e \<Longrightarrow>
     \<exists>ts. os_utime time_error stored fs p ts = Inl e"
  by (auto simp: generate_download_response_def is_float_def
      split: option.splits sum.splits if_splits)

lemma generate_download_response_accepted:
  "(\<And>ts. time_error ts = None) \<Longrightarrow> fs p \<noteq> None \<Longrightarrow>
     \<exists>fs'. generate_download_response py_float time_error stored fs fd p =
       Inr (fs', \<lparr>file_data = fd, path = p\<rparr>)"
  by (auto simp: generate_download_response_def is_float_def os_utime_def
      split: option.splits sum.splits if_splits)




text \<open>
  Claim C10. Whenever the function returns, in either branch, the response holds the
  file data it was given, unchanged, and the download path it was given. It returns
  whenever the operating system accepts the call of \<^verbatim>\<open>os.utime\<close> (always, in the
  skipping branch, where no call is made), and the only error it can end with is the
  one \<^verbatim>\<open>os.utime\<close> raised.
\<close>

theorem generate_download_response_frame:
  "(\<forall>fs' r. generate_download_response py_float time_error stored fs fd p = Inr (fs', r) \<longrightarrow>
       file_data r = fd \<and> path r = p)
   \<and> ((\<forall>ts. time_error ts = None) \<and> fs p \<noteq> None \<longrightarrow>
       (\<exists>fs'. generate_download_response py_float time_error stored fs fd p =
          Inr (fs', \<lparr>file_data = fd, path = p\<rparr>)))
   \<and> (\<forall>e. generate_download_response py_float time_error stored fs fd p = Inl e \<longrightarrow>
       (\<exists>ts. os_utime time_error stored fs p ts = Inl e))"
proof -
  have "\<And>fs' r. generate_download_response py_float time_error stored fs fd p = Inr (fs', r) \<Longrightarrow>
      file_data r = fd \<and> path r = p"
    by (drule generate_download_response_returns) simp
  then show ?thesis
    using generate_download_response_raises [of py_float time_error stored fs fd p]
      generate_download_response_accepted [of time_error fs p py_float stored fd]
    by blast
qed

theorem generate_download_response_frame_witness:
  "(\<exists>fs'. generate_download_response
      (map_of [(''1700000000'', 1700000000 :: int), (''1690000000'', 1690000000)])
      (\<lambda>_. None) (\<lambda>t. t)
      [\<lparr>root = ''/'', parts = [''d'', ''b.bin'']\<rparr> \<mapsto> (5, 7)]
      \<lparr>source_identifiers = Some \<lparr>relative_path = Some ''b.bin''\<rparr>,
       metadata = \<lparr>date_modified = Some ''1700000000'', date_created = Some ''1690000000''\<rparr>\<rparr>
      \<lparr>root = ''/'', parts = [''d'', ''b.bin'']\<rparr>
    = Inr (fs',
           \<lparr>file_data = \<lparr>source_identifiers = Some \<lparr>relative_path = Some ''b.bin''\<rparr>,
              metadata = \<lparr>date_modified = Some ''1700000000'',
                          date_created = Some ''1690000000''\<rparr>\<rparr>,
            path = \<lparr>root = ''/'', parts = [''d'', ''b.bin'']\<rparr>\<rparr>))"
  using generate_download_response_frame
    [of "map_of [(''1700000000'', 1700000000 :: int), (''1690000000'', 1690000000)]"
        "\<lambda>_. None" "\<lambda>t. t"
        "[\<lparr>root = ''/'', parts = [''d'', ''b.bin'']\<rparr> \<mapsto> (5, 7)]"
        "\<lparr>source_identifiers = Some \<lparr>relative_path = Some ''b.bin''\<rparr>,
          metadata = \<lparr>date_modified = Some ''1700000000'',
                      date_created = Some ''1690000000''\<rparr>\<rparr>"
        "\<lparr>root = ''/'', parts = [''d'', ''b.bin'']\<rparr>"]
  by simp

section \<open>The asynchronous run\<close>

text \<open>
  Claim C7. Awaiting the coroutine that the default \<^verbatim>\<open>run_async\<close> returns gives
  exactly what \<^verbatim>\<open>run\<close> gives for the same file data and keyword options, whatever
  the subclass's \<^verbatim>\<open>run\<close> is.
\<close>

theorem run_async_delegates_to_run:
  "await (run_async run self fd kwargs) = run self fd kwargs"
  by (simp add: await_def run_async_def)


section \<open>The GCS access configuration and the registry\<close>

text \<open>
  Claim C2, as the code has it. Construction tries the cases in the order of the
  code: a key that is \<^verbatim>\<open>None\<close> or the empty string leaves the token \<^verbatim>\<open>None\<close>; one of
  the five named modes becomes the token; a key that \<^verbatim>\<open>json_to_dict\<close> turns into a
  dictionary makes that dictionary the token; the path of an existing file becomes
  the token; for every other key construction itself raises: \<^verbatim>\<open>ValueError\<close> where
  the file system answers that there is no such file, and the file system's own
  error where the question itself fails.
\<close>

theorem gcs_access_config_token_cases:
  "(key = None \<or> key = Some [] \<longrightarrow>
      GcsAccessConfig_init json_to_dict is_file key =
        Inr \<lparr>service_account_key = key, token = None\<rparr>)
   \<and> (s \<in> set ALLOWED_AUTH_VALUES \<longrightarrow>
      GcsAccessConfig_init json_to_dict is_file (Some s) =
        Inr \<lparr>service_account_key = Some s, token = Some (TokenStr s)\<rparr>)
   \<and> (s \<noteq> [] \<and> s \<notin> set ALLOWED_AUTH_VALUES \<and> json_to_dict s = JsonDict d \<longrightarrow>
      GcsAccessConfig_init json_to_dict is_file (Some s) =
        Inr \<lparr>service_account_key = Some s, token = Some (TokenDict d)\<rparr>)
   \<and> (s \<noteq> [] \<and> s \<notin> set ALLOWED_AUTH_VALUES \<and> json_to_dict s = JsonOther \<and>
      is_file (Path s) = Inr True \<longrightarrow>
      GcsAccessConfig_init json_to_dict is_file (Some s) =
        Inr \<lparr>service_account_key = Some s, token = Some (TokenStr s)\<rparr>)
   \<and> (s \<noteq> [] \<and> s \<notin> set ALLOWED_AUTH_VALUES \<and> json_to_dict s = JsonOther \<and>
      is_file (Path s) \<noteq> Inr True \<longrightarrow>
      (\<exists>e. GcsAccessConfig_init json_to_dict is_file (Some s) = Inl e))
   \<and> (s \<noteq> [] \<and> s \<notin> set ALLOWED_AUTH_VALUES \<and> json_to_dict s = JsonOther \<and>
      is_file (Path s) = Inr False \<longrightarrow>
      GcsAccessConfig_init json_to_dict is_file (Some s) =
        Inl (ValueError ''Invalid auth token value''))
   \<and> (s \<noteq> [] \<and> s \<notin> set ALLOWED_AUTH_VALUES \<and> json_to_dict s = JsonOther \<and>
      is_file (Path s) = Inl e \<longrightarrow>
      GcsAccessConfig_init json_to_dict is_file (Some s) = Inl e)"
  by (auto simp: GcsAccessConfig_init_def model_post_init_def ALLOWED_AUTH_VALUES_def
      split: sum.splits bool.splits)

theorem gcs_access_config_token_cases_witness:
  "GcsAccessConfig_init (\<lambda>s. if s = ''{}'' then JsonDict [] else JsonOther)
      (\<lambda>p. if p = Path ''toolong'' then Inl (OSError ''File name too long'')
            else Inr (p = Path ''/keys/sa.json'')) None
     = Inr \<lparr>service_account_key = None, token = (None :: (string \<times> string) list token_value option)\<rparr>
   \<and> GcsAccessConfig_init (\<lambda>s. if s = ''{}'' then JsonDict [] else JsonOther)
      (\<lambda>p. if p = Path ''toolong'' then Inl (OSError ''File name too long'')
            else Inr (p = Path ''/keys/sa.json'')) (Some ''anon'')
     = Inr \<lparr>service_account_key = Some ''anon'',
            token = Some (TokenStr ''anon'' :: (string \<times> string) list token_value)\<rparr>
   \<and> GcsAccessConfig_init (\<lambda>s. if s = ''{}'' then JsonDict [] else JsonOther)
      (\<lambda>p. if p = Path ''toolong'' then Inl (OSError ''File name too long'')
            else Inr (p = Path ''/keys/sa.json'')) (Some ''{}'')
     = Inr \<lparr>service_account_key = Some ''{}'',
            token = Some (TokenDict ([] :: (string \<times> string) list))\<rparr>
   \<and> GcsAccessConfig_init (\<lambda>s. if s = ''{}'' then JsonDict [] else JsonOther)
      (\<lambda>p. if p = Path ''toolong'' then Inl (OSError ''File name too long'')
            else Inr (p = Path ''/keys/sa.json'')) (Some ''/keys/sa.json'')
     = Inr \<lparr>service_account_key = Some ''/keys/sa.json'',
            token = Some (TokenStr ''/keys/sa.json'' :: (string \<times> string) list token_value)\<rparr>
   \<and> GcsAccessConfig_init (\<lambda>s. if s = ''{}'' then JsonDict [] else JsonOther)
      (\<lambda>p. if p = Path ''toolong'' then Inl (OSError ''File name too long'')
            else Inr (p = Path ''/keys/sa.json'')) (Some ''hunter2'')
     = (Inl (ValueError ''Invalid auth token value'')
          :: exn + (string \<times> string) list GcsAccessConfig)
   \<and> GcsAccessConfig_init (\<lambda>s. if s = ''{}'' then JsonDict [] else JsonOther)
      (\<lambda>p. if p = Path ''toolong'' then Inl (OSError ''File name too long'')
            else Inr (p = Path ''/keys/sa.json'')) (Some ''toolong'')
     = (Inl (OSError ''File name too long'')
          :: exn + (string \<times> string) list GcsAccessConfig)"
proof -
  let ?j = "\<lambda>s. if s = ''{}'' then JsonDict ([] :: (string \<times> string) list) else JsonOther"
  let ?f = "\<lambda>p. if p = Path ''toolong'' then Inl (OSError ''File name too long'')
            else Inr (p = Path ''/keys/sa.json'')"
  have p: "Path ''/keys/sa.json'' = \<lparr>root = ''/'', parts = [''keys'', ''sa.json'']\<rparr>"
    "Path ''hunter2'' = \<lparr>root = [], parts = [''hunter2'']\<rparr>"
    "Path ''toolong'' = \<lparr>root = [], parts = [''toolong'']\<rparr>"
    by (simp_all add: Path_def splitroot_def startswith_sep_def)
  show ?thesis
    using gcs_access_config_token_cases [of None ?j ?f "''anon''" "[]"]
      gcs_access_config_token_cases [of None ?j ?f "''{}''" "[]"]
      gcs_access_config_token_cases [of None ?j ?f "''/keys/sa.json''" "[]"]
      gcs_access_config_token_cases [of None ?j ?f "''hunter2''" "[]"]
      gcs_access_config_token_cases [of None ?j ?f "''toolong''" "[]" "OSError ''File name too long''"]
    by (simp add: p ALLOWED_AUTH_VALUES_def)
qed

text \<open>
  The second claim as the spec words it fails at the empty string: it is not
  \<^verbatim>\<open>None\<close>, not a named mode, here not turned into a dictionary and not the path of
  a file, and construction returns instead of raising.
\<close>

theorem gcs_access_config_empty_key_not_raised:
  "Some [] \<noteq> (None :: string option)
   \<and> [] \<notin> set ALLOWED_AUTH_VALUES
   \<and> GcsAccessConfig_init (\<lambda>_. JsonOther) (\<lambda>_. Inr False) (Some [])
       = Inr \<lparr>service_account_key = Some [], token = (None :: unit token_value option)\<rparr>
   \<and> (\<forall>e. GcsAccessConfig_init (\<lambda>_. JsonOther :: unit json_value) (\<lambda>_. Inr False) (Some [])
       \<noteq> Inl e)"
  by (simp add: GcsAccessConfig_init_def model_post_init_def ALLOWED_AUTH_VALUES_def)

text \<open>
  Claim C9. Whatever \<^verbatim>\<open>json_to_dict\<close> and the file system say, construction with the
  empty string as the key does not raise and leaves the token \<^verbatim>\<open>None\<close>, as it does
  for the key \<^verbatim>\<open>None\<close>; the empty string is none of the named modes.
\<close>

theorem gcs_access_config_empty_key:
  "GcsAccessConfig_init json_to_dict is_file (Some []) =
     Inr \<lparr>service_account_key = Some [], token = None\<rparr>
   \<and> GcsAccessConfig_init json_to_dict is_file None =
     Inr \<lparr>service_account_key = None, token = None\<rparr>
   \<and> [] \<notin> set ALLOWED_AUTH_VALUES"
  by (simp add: GcsAccessConfig_init_def model_post_init_def ALLOWED_AUTH_VALUES_def)

text \<open>
  Claim C8, as the code has it. Both entries are populated; the indexer and the
  downloader of the source entry and the uploader of the destination entry annotate
  their connection configuration with the class that both entries name as
  \<^verbatim>\<open>connection_config\<close>, which is \<^verbatim>\<open>GcsConnectionConfig\<close>; these three classes and the
  connection configuration class carry the connector type \<^verbatim>\<open>gcs\<close>. The three
  configuration classes with an empty body carry what their base classes provide and
  nothing of their own.
\<close>

theorem gcs_registry_entries_consistent:
  "map fst gcs_source_entry =
     [''indexer'', ''indexer_config'', ''downloader'', ''downloader_config'',
      ''connection_config'']
   \<and> map fst gcs_destination_entry = [''uploader'', ''uploader_config'', ''connection_config'']
   \<and> map_of gcs_source_entry ''connection_config'' = Some GcsConnectionConfig
   \<and> map_of gcs_destination_entry ''connection_config'' = Some GcsConnectionConfig
   \<and> map_option (\<lambda>c. connection_config_type (body_of c)) (map_of gcs_source_entry ''indexer'')
       = Some (Some GcsConnectionConfig)
   \<and> map_option (\<lambda>c. connection_config_type (body_of c)) (map_of gcs_source_entry ''downloader'')
       = Some (Some GcsConnectionConfig)
   \<and> map_option (\<lambda>c. connection_config_type (body_of c))
        (map_of gcs_destination_entry ''uploader'')
       = Some (Some GcsConnectionConfig)
   \<and> list_all (\<lambda>c. connector_type_of inherited c = Some ''gcs'')
        [GcsIndexer, GcsDownloader, GcsUploader, GcsConnectionConfig]
   \<and> connector_type_of inherited GcsIndexerConfig = inherited FsspecIndexerConfig
   \<and> connector_type_of inherited GcsDownloaderConfig = inherited FsspecDownloaderConfig
   \<and> connector_type_of inherited GcsUploaderConfig = inherited FsspecUploaderConfig"
  by (simp add: gcs_source_entry_def gcs_destination_entry_def connector_type_of_def
      CONNECTOR_TYPE_def)

text \<open>
  The eighth claim as the spec words it fails for the configuration classes: with
  base classes that provide no connector type, not every class of the entries
  carries \<^verbatim>\<open>gcs\<close>.
\<close>

theorem gcs_config_classes_no_connector_type:
  "connector_type_of (\<lambda>_. None) GcsIndexerConfig = None
   \<and> GcsIndexerConfig \<in> set (entry_classes gcs_source_entry)
   \<and> \<not> list_all (\<lambda>c. connector_type_of (\<lambda>_. None) c = Some ''gcs'')
         (entry_classes gcs_source_entry @ entry_classes gcs_destination_entry)"
  by (simp add: gcs_source_entry_def gcs_destination_entry_def connector_type_of_def
      CONNECTOR_TYPE_def entry_classes_def)


end
